theory Spec2Isabelle
  imports Main
begin

section \<open>Notifications, promises and JavaScript strings\<close>

text \<open>
  Every portal handler is an async function that reads the React state of its component,
  awaits calls on the hosted row store, raises toasts and sets state. It is embedded as a
  function from the state at the click to an outcome: the state once the handler has
  settled, the calls it issued (in order) and the toasts it raised (in order). What the
  outside world answers (the row store, \<open>JSON.parse\<close>, the clock) is read from an
  environment record. \<open>console.error\<close> traces are not part of the outcome.
\<close>

datatype variant = Default | Destructive

datatype toast = Toast string string variant

record ('s, 'c) outcome =
  ui :: 's
  calls :: "'c list"
  toasts :: "toast list"

text \<open>The result of awaiting a promise: it resolves to a value or rejects with a message.\<close>

datatype 'a awaited = Resolves 'a | Rejects string

text \<open>
  Strings are lists of 8-bit characters, so the white space of \<open>String.prototype.trim\<close>
  is tab, line feed, vertical tab, form feed, carriage return, space and no-break space;
  code points above 255 are outside the model. A string is falsy exactly when it is empty.
\<close>

definition is_white_space :: "char \<Rightarrow> bool" where
  "is_white_space c = (of_char c \<in> {9, 10, 11, 12, 13, 32, 160 :: nat})"

definition trim :: "string \<Rightarrow> string" where
  "trim s = rev (dropWhile is_white_space (rev (dropWhile is_white_space s)))"

fun truthy :: "string option \<Rightarrow> bool" where
  "truthy None = False"
| "truthy (Some s) = (s \<noteq> [])"

section \<open>Rows of the store\<close>

text \<open>
  Rows carry the columns the handlers read or write. \<open>'n\<close> is the type of JavaScript
  numbers and \<open>'j\<close> the type of parsed JSON values; both stay abstract. The nested
  relation expansions of the selects (\<open>herbs:herb_id (...)\<close>) only decorate rows for
  display and are left out.
\<close>

record 'n batch =
  b_id :: string
  b_batch_id :: string
  b_herb_id :: string
  b_total_quantity_kg :: 'n
  b_batch_status :: string

record 'n processing_step =
  ps_id :: string
  ps_batch_id :: string
  ps_processor_id :: string
  ps_process_type :: string
  ps_input_quantity_kg :: 'n
  ps_completion_date :: "string option"

record test_results =
  moisture_content :: string
  pesticide_residue :: string
  heavy_metals :: string
  microbial_count :: string
  dna_barcode :: string
  overall_grade :: string
  tr_notes :: string

record quality_test =
  qt_id :: string
  qt_batch_id :: string
  qt_lab_id :: string
  qt_sample_id :: string
  qt_test_status :: string
  qt_completion_date :: "string option"
  qt_test_results :: "test_results option"

record 'n collection_event =
  ce_id :: string
  ce_collector_id :: string
  ce_herb_id :: string
  ce_quantity_kg :: 'n

record herb =
  h_id :: string
  h_botanical_name :: string
  h_local_name :: string
  h_plant_family :: "string option"
  h_conservation_status :: "string option"
  h_approved_regions :: "string list option"
  h_medicinal_properties :: "string list option"
  h_harvest_season :: "string list option"

record collector_row =
  col_id :: string
  col_profile_id :: "string option"
  col_collector_type :: string
  col_verification_status :: string
  col_aadhaar_id :: "string option"
  col_cooperative_id :: "string option"

record profile_row =
  pr_id :: string
  pr_full_name :: string
  pr_email :: string
  pr_role :: string
  pr_aadhaar_id :: "string option"
  pr_cooperative_group :: "string option"

record 'j compliance_rule =
  cr_id :: string
  cr_herb_id :: string
  cr_rule_type :: string
  cr_rule_parameters :: 'j
  cr_is_active :: bool

record ('j, 'n) product_row =
  p_manufacturer_id :: "string option"
  p_product_name :: string
  p_product_type :: string
  p_final_quantity :: 'n
  p_unit_type :: string
  p_formulation_details :: 'j
  p_batch_ids :: "string list"
  p_qr_code :: string

section \<open>Consumer portal\<close>

text \<open>
  \<open>TraceabilityData\<close> of ConsumerPortal.tsx, with the \<open>error\<close> property that
  \<open>scanQRCode\<close> reads from the object \<open>getQRCodeData\<close> resolves to.
\<close>

record ('j, 'n) traceability_data =
  d_error :: "string option"
  d_product :: "('j, 'n) product_row option"
  d_batches :: "'n batch list option"
  d_collections :: "'n collection_event list option"
  d_qualityTests :: "quality_test list option"
  d_processingSteps :: "'n processing_step list option"

record ('j, 'n) consumer_state =
  qrCode :: string
  traceData :: "('j, 'n) traceability_data option"
  loading :: bool
  error :: string

datatype consumer_call = GetQRCodeData string

definition scanQRCode ::
  "(string \<Rightarrow> ('j, 'n) traceability_data awaited) \<Rightarrow> ('j, 'n) consumer_state
     \<Rightarrow> (('j, 'n) consumer_state, consumer_call) outcome" where
  "scanQRCode getQRCodeData s =
    (if trim (qrCode s) = [] then
       \<lparr>ui = s, calls = [],
        toasts = [Toast ''Missing QR Code'' ''Please enter a QR code to scan.'' Destructive]\<rparr>
     else
       let s1 = s\<lparr>loading := True, error := [], traceData := None\<rparr>;
           issued = [GetQRCodeData (trim (qrCode s))]
       in case getQRCodeData (trim (qrCode s)) of
            Resolves data \<Rightarrow>
              if truthy (d_error data) then
                \<lparr>ui = s1\<lparr>error := the (d_error data), loading := False\<rparr>, calls = issued,
                 toasts = [Toast ''QR Code not found''
                             ''This QR code is not registered in our system.'' Destructive]\<rparr>
              else
                \<lparr>ui = s1\<lparr>traceData := Some data, loading := False\<rparr>, calls = issued,
                 toasts = [Toast ''QR Code scanned successfully!''
                             ''Full traceability information loaded.'' Default]\<rparr>
          | Rejects msg \<Rightarrow>
              \<lparr>ui = s1\<lparr>error := msg, loading := False\<rparr>, calls = issued,
               toasts = [Toast ''Error scanning QR code'' msg Destructive]\<rparr>)"

section \<open>The row store and the environment of a handler\<close>

text \<open>
  Rows a portal writes. The object literal passed to \<open>insert\<close> or \<open>update\<close> is a record with
  the same properties.
\<close>

record ('j, 'n) processing_step_insert =
  si_batch_id :: string
  si_processor_id :: "string option"
  si_process_type :: string
  si_input_quantity_kg :: 'n
  si_process_parameters :: 'j
  si_process_conditions :: 'j

record herb_insert =
  hi_botanical_name :: string
  hi_local_name :: string
  hi_plant_family :: "string option"
  hi_conservation_status :: "string option"
  hi_approved_regions :: "string list option"
  hi_medicinal_properties :: "string list option"
  hi_harvest_season :: "string list option"

record 'j rule_insert =
  ri_herb_id :: string
  ri_rule_type :: string
  ri_rule_parameters :: 'j

record ('j, 'n) collection_insert =
  ci_collector_id :: string
  ci_herb_id :: string
  ci_quantity_kg :: 'n
  ci_latitude :: 'n
  ci_longitude :: 'n
  ci_plant_part :: string
  ci_harvest_season :: string
  ci_initial_condition :: string
  ci_environmental_data :: "'j option"
  ci_storage_conditions :: "'j option"

record collector_insert =
  co_profile_id :: "string option"
  co_collector_type :: string
  co_verification_status :: string
  co_aadhaar_id :: "string option"
  co_cooperative_id :: "string option"

record test_update =
  tu_test_results :: test_results
  tu_test_status :: string
  tu_completion_date :: string

text \<open>
  A call on the row store client: a select on a table with its equality filters (a filter
  value is \<open>None\<close> when the handler passes \<open>undefined\<close>), an insert of one row, or the
  update of the quality test with a given id.
\<close>

datatype ('j, 'n) store_call =
    Select string "(string \<times> string option) list"
  | Insert_processing_step "('j, 'n) processing_step_insert"
  | Insert_product "('j, 'n) product_row"
  | Insert_herb herb_insert
  | Insert_compliance_rule "'j rule_insert"
  | Insert_collection_event "('j, 'n) collection_insert"
  | Insert_collector collector_insert
  | Update_quality_test string test_update

record qr_payload =
  payload_type :: string
  productId :: string
  batchIds :: "string list"

text \<open>
  What a handler reads from outside its component. \<open>rejects\<close> is the error the store
  answers to a call, if any. The tables are the rows the store holds when a select runs,
  listed in the order the select asks for (every select of the portals has an
  \<open>order\<close> clause or none; it permutes rows and never drops one). \<open>json_parse\<close> is
  \<open>JSON.parse\<close>, \<open>None\<close> where it throws. \<open>generateQRCode\<close> is imported from
  \<open>@/utils/blockchain\<close>. \<open>profile\<close> is what \<open>useAuth\<close> holds, and
  \<open>generated_id\<close> the id the store gives a row it inserts.
\<close>

record ('j, 'n) env =
  json_parse :: "string \<Rightarrow> 'j option"
  parseFloat :: "string \<Rightarrow> 'n"
  parseInt :: "string \<Rightarrow> 'n"
  date_now :: nat
  date_iso :: string
  generateQRCode :: "qr_payload \<Rightarrow> string"
  profile :: "profile_row option"
  rejects :: "('j, 'n) store_call \<Rightarrow> string option"
  generated_id :: string
  batches_table :: "'n batch list"
  processing_steps_table :: "'n processing_step list"
  quality_tests_table :: "quality_test list"
  collectors_table :: "collector_row list"
  herbs_table :: "herb list"
  collection_events_table :: "'n collection_event list"
  profiles_table :: "profile_row list"
  compliance_rules_table :: "'j compliance_rule list"

text \<open>\<open>profile?.id\<close>: undefined while no profile is loaded.\<close>

definition profile_id :: "('j, 'n) env \<Rightarrow> string option" where
  "profile_id env = map_option pr_id (profile env)"

text \<open>\<open>a || b\<close> on strings, and the decimal text of a number in a template literal.\<close>

definition or_else :: "string \<Rightarrow> string \<Rightarrow> string" where
  "or_else a b = (if a = [] then b else a)"

fun decimal :: "nat \<Rightarrow> string" where
  "decimal n =
     (if n < 10 then [''0123456789'' ! n]
      else decimal (n div 10) @ [''0123456789'' ! (n mod 10)])"

declare decimal.simps [simp del]

section \<open>Factory portal\<close>

record process_form =
  process_type :: string
  input_quantity_kg :: string
  process_parameters :: string
  process_conditions :: string

record product_form =
  product_name :: string
  product_type :: string
  final_quantity :: string
  unit_type :: string
  formulation_details :: string

record 'n factory_state =
  availableBatches :: "'n batch list"
  processingSteps :: "'n processing_step list"
  selectedBatch :: "'n batch option"
  processForm :: process_form
  productForm :: product_form
  showProductForm :: bool
  loading_factory :: bool

definition empty_process_form :: process_form where
  "empty_process_form =
     \<lparr>process_type = [], input_quantity_kg = [], process_parameters = [],
      process_conditions = []\<rparr>"

definition empty_product_form :: product_form where
  "empty_product_form =
     \<lparr>product_name = [], product_type = [], final_quantity = [], unit_type = [],
      formulation_details = []\<rparr>"

definition fetch_failed :: toast where
  "fetch_failed = Toast ''Error'' ''Failed to fetch data'' Destructive"

definition fetchData_factory ::
  "('j, 'n) env \<Rightarrow> 'n factory_state \<Rightarrow> ('n factory_state, ('j, 'n) store_call) outcome" where
  "fetchData_factory env s =
    (let q_batches = Select ''batches'' [(''batch_status'', Some ''approved'')];
         q_steps = Select ''processing_steps'' [(''processor_id'', profile_id env)]
     in case rejects env q_batches of
          Some e \<Rightarrow>
            \<lparr>ui = s\<lparr>loading_factory := False\<rparr>, calls = [q_batches], toasts = [fetch_failed]\<rparr>
        | None \<Rightarrow>
            (case rejects env q_steps of
               Some e \<Rightarrow>
                 \<lparr>ui = s\<lparr>loading_factory := False\<rparr>, calls = [q_batches, q_steps],
                  toasts = [fetch_failed]\<rparr>
             | None \<Rightarrow>
                 \<lparr>ui = s\<lparr>availableBatches :=
                             filter (\<lambda>b. b_batch_status b = ''approved'') (batches_table env),
                           processingSteps :=
                             filter (\<lambda>p. Some (ps_processor_id p) = profile_id env)
                               (processing_steps_table env),
                           loading_factory := False\<rparr>,
                  calls = [q_batches, q_steps], toasts = []\<rparr>))"

text \<open>
  A handler that ends by calling \<open>fetchData()\<close> does not await it; the fetch settles after
  the handler's own state updates, which touch other fields. \<open>then_fetch\<close> puts the
  fetch after what the handler did itself.
\<close>

definition then_fetch ::
  "'c list \<Rightarrow> toast list \<Rightarrow> ('s, 'c) outcome \<Rightarrow> ('s, 'c) outcome" where
  "then_fetch cs ts r = \<lparr>ui = ui r, calls = cs @ calls r, toasts = ts @ toasts r\<rparr>"

definition required_fields :: toast where
  "required_fields = Toast ''Error'' ''Please fill all required fields'' Destructive"

definition createProcessingStep ::
  "('j, 'n) env \<Rightarrow> 'n factory_state \<Rightarrow> ('n factory_state, ('j, 'n) store_call) outcome" where
  "createProcessingStep env s =
    (case selectedBatch s of
       None \<Rightarrow> \<lparr>ui = s, calls = [], toasts = [required_fields]\<rparr>
     | Some b \<Rightarrow>
        if process_type (processForm s) = [] \<or> input_quantity_kg (processForm s) = [] then
          \<lparr>ui = s, calls = [], toasts = [required_fields]\<rparr>
        else
          (let failed = Toast ''Error'' ''Failed to create processing step'' Destructive in
           (case json_parse env (or_else (process_parameters (processForm s)) ''{}'') of
              None \<Rightarrow> \<lparr>ui = s, calls = [], toasts = [failed]\<rparr>
            | Some params \<Rightarrow>
               (case json_parse env (or_else (process_conditions (processForm s)) ''{}'') of
                  None \<Rightarrow> \<lparr>ui = s, calls = [], toasts = [failed]\<rparr>
                | Some conds \<Rightarrow>
                   (let ins = Insert_processing_step
                         \<lparr>si_batch_id = b_id b, si_processor_id = profile_id env,
                          si_process_type = process_type (processForm s),
                          si_input_quantity_kg =
                            parseFloat env (input_quantity_kg (processForm s)),
                          si_process_parameters = params, si_process_conditions = conds\<rparr>
                    in (case rejects env ins of
                          Some e \<Rightarrow> \<lparr>ui = s, calls = [ins], toasts = [failed]\<rparr>
                        | None \<Rightarrow>
                            then_fetch [ins]
                              [Toast ''Success'' ''Processing step created successfully'' Default]
                              (fetchData_factory env
                                 (s\<lparr>processForm := empty_process_form,
                                    selectedBatch := None\<rparr>))))))))"

definition completed_batch_ids :: "'n processing_step list \<Rightarrow> string list" where
  "completed_batch_ids steps =
     map ps_batch_id (filter (\<lambda>step. truthy (ps_completion_date step)) steps)"

definition createProduct ::
  "('j, 'n) env \<Rightarrow> 'n factory_state \<Rightarrow> ('n factory_state, ('j, 'n) store_call) outcome" where
  "createProduct env s =
    (if product_name (productForm s) = [] \<or> final_quantity (productForm s) = [] then
       \<lparr>ui = s, calls = [], toasts = [required_fields]\<rparr>
     else
       (let failed = Toast ''Error'' ''Failed to create product'' Destructive;
            ids = completed_batch_ids (processingSteps s);
            token = generateQRCode env
              \<lparr>payload_type = ''product'', productId = ''PROD_'' @ decimal (date_now env),
               batchIds = ids\<rparr>
        in (case json_parse env (or_else (formulation_details (productForm s)) ''{}'') of
              None \<Rightarrow> \<lparr>ui = s, calls = [], toasts = [failed]\<rparr>
            | Some details \<Rightarrow>
               (let ins = Insert_product
                     \<lparr>p_manufacturer_id = profile_id env,
                      p_product_name = product_name (productForm s),
                      p_product_type = product_type (productForm s),
                      p_final_quantity = parseInt env (final_quantity (productForm s)),
                      p_unit_type = unit_type (productForm s),
                      p_formulation_details = details,
                      p_batch_ids = ids, p_qr_code = token\<rparr>
                in (case rejects env ins of
                      Some e \<Rightarrow> \<lparr>ui = s, calls = [ins], toasts = [failed]\<rparr>
                    | None \<Rightarrow>
                        \<lparr>ui = s\<lparr>productForm := empty_product_form,
                                showProductForm := False\<rparr>,
                         calls = [ins],
                         toasts = [Toast ''Success''
                                     ''Product created successfully with QR code'' Default]\<rparr>)))))"

text \<open>
  The life of the Factory portal: it mounts with empty lists and \<open>loading\<close> set, and
  from then on every change of its state is one of the handlers above or a setter bound
  to a form control. Each event comes with the environment it runs in, since the store
  changes between events.
\<close>

datatype 'n factory_event =
    FetchData
  | CreateProcessingStep
  | CreateProduct
  | SetSelectedBatch "'n batch option"
  | SetProcessForm process_form
  | SetProductForm product_form
  | SetShowProductForm bool

definition initial_factory_state :: "'n factory_state" where
  "initial_factory_state =
     \<lparr>availableBatches = [], processingSteps = [], selectedBatch = None,
      processForm = empty_process_form, productForm = empty_product_form,
      showProductForm = False, loading_factory = True\<rparr>"

fun factory_step :: "('j, 'n) env \<Rightarrow> 'n factory_event \<Rightarrow> 'n factory_state \<Rightarrow> 'n factory_state" where
  "factory_step env FetchData s = ui (fetchData_factory env s)"
| "factory_step env CreateProcessingStep s = ui (createProcessingStep env s)"
| "factory_step env CreateProduct s = ui (createProduct env s)"
| "factory_step env (SetSelectedBatch b) s = s\<lparr>selectedBatch := b\<rparr>"
| "factory_step env (SetProcessForm f) s = s\<lparr>processForm := f\<rparr>"
| "factory_step env (SetProductForm f) s = s\<lparr>productForm := f\<rparr>"
| "factory_step env (SetShowProductForm v) s = s\<lparr>showProductForm := v\<rparr>"

fun factory_run :: "(('j, 'n) env \<times> 'n factory_event) list \<Rightarrow> 'n factory_state \<Rightarrow> 'n factory_state" where
  "factory_run [] s = s"
| "factory_run ((env, ev) # rest) s = factory_run rest (factory_step env ev s)"

section \<open>Lab portal\<close>

record lab_state =
  qualityTests :: "quality_test list"
  selectedTest :: "quality_test option"
  testResults :: test_results
  loading_lab :: bool

definition empty_test_results :: test_results where
  "empty_test_results =
     \<lparr>moisture_content = [], pesticide_residue = [], heavy_metals = [], microbial_count = [],
      dna_barcode = [], overall_grade = [], tr_notes = []\<rparr>"

definition fetchQualityTests ::
  "('j, 'n) env \<Rightarrow> lab_state \<Rightarrow> (lab_state, ('j, 'n) store_call) outcome" where
  "fetchQualityTests env s =
    (let q = Select ''quality_tests'' [(''lab_id'', profile_id env)]
     in case rejects env q of
          Some e \<Rightarrow>
            \<lparr>ui = s\<lparr>loading_lab := False\<rparr>, calls = [q],
             toasts = [Toast ''Error'' ''Failed to fetch quality tests'' Destructive]\<rparr>
        | None \<Rightarrow>
            \<lparr>ui = s\<lparr>qualityTests :=
                        filter (\<lambda>t. Some (qt_lab_id t) = profile_id env) (quality_tests_table env),
                      loading_lab := False\<rparr>,
             calls = [q], toasts = []\<rparr>)"

text \<open>
  The click on a row of the test queue (\<open>onClick={() => setSelectedTest(test)}\<close>): every
  listed test can be selected, whatever its status.
\<close>

definition selectTest :: "quality_test \<Rightarrow> lab_state \<Rightarrow> lab_state" where
  "selectTest t s = s\<lparr>selectedTest := Some t\<rparr>"

definition updateTestResults ::
  "('j, 'n) env \<Rightarrow> lab_state \<Rightarrow> (lab_state, ('j, 'n) store_call) outcome" where
  "updateTestResults env s =
    (case selectedTest s of
       None \<Rightarrow> \<lparr>ui = s, calls = [], toasts = []\<rparr>
     | Some t \<Rightarrow>
        (let upd = Update_quality_test (qt_id t)
               \<lparr>tu_test_results = testResults s, tu_test_status = ''completed'',
                tu_completion_date = date_iso env\<rparr>
         in (case rejects env upd of
               Some e \<Rightarrow>
                 \<lparr>ui = s, calls = [upd],
                  toasts = [Toast ''Error'' ''Failed to update test results'' Destructive]\<rparr>
             | None \<Rightarrow>
                 then_fetch [upd] [Toast ''Success'' ''Test results updated successfully'' Default]
                   (fetchQualityTests env
                      (s\<lparr>selectedTest := None, testResults := empty_test_results\<rparr>)))))"

text \<open>
  Modelled from the spec: the row store's \<open>update(table, id, patch)\<close> of section 6, on the
  quality tests. The store is a hosted service, none of its code is in the repository.
  Every row with the id takes the columns of the patch.
\<close>

definition apply_test_update :: "string \<Rightarrow> test_update \<Rightarrow> quality_test list \<Rightarrow> quality_test list" where
  "apply_test_update i u rows =
     map (\<lambda>t. if qt_id t = i
              then t\<lparr>qt_test_results := Some (tu_test_results u),
                     qt_test_status := tu_test_status u,
                     qt_completion_date := Some (tu_completion_date u)\<rparr>
              else t) rows"

section \<open>Collector portal\<close>

record 'n location =
  lat :: 'n
  lng :: 'n

record collection_form =
  herb_id :: string
  quantity_kg :: string
  plant_part :: string
  harvest_season :: string
  initial_condition :: string
  environmental_data :: string
  storage_conditions :: string

record 'n collector_state =
  herbs :: "herb list"
  collectionEvents :: "'n collection_event list"
  collector :: "collector_row option"
  location :: "'n location option"
  showCollectionForm :: bool
  collectionForm :: collection_form
  loading_collector :: bool

definition empty_collection_form :: collection_form where
  "empty_collection_form =
     \<lparr>herb_id = [], quantity_kg = [], plant_part = [], harvest_season = [],
      initial_condition = [], environmental_data = [], storage_conditions = []\<rparr>"

text \<open>
  \<open>.single()\<close> answers the row when exactly one matches and the error PGRST116 with no data
  otherwise; \<open>fetchData\<close> lets that error pass.
\<close>

fun single :: "'a list \<Rightarrow> 'a option" where
  "single [x] = Some x"
| "single xs = None"

definition fetchData_collector ::
  "('j, 'n) env \<Rightarrow> 'n collector_state \<Rightarrow> ('n collector_state, ('j, 'n) store_call) outcome" where
  "fetchData_collector env s =
    (let q_collector = Select ''collectors'' [(''profile_id'', profile_id env)];
         q_herbs = Select ''herbs'' [];
         collectorData = single (filter (\<lambda>c. col_profile_id c = profile_id env \<and> profile_id env \<noteq> None)
                                   (collectors_table env))
     in case rejects env q_collector of
          Some e \<Rightarrow>
            \<lparr>ui = s\<lparr>loading_collector := False\<rparr>, calls = [q_collector],
             toasts = [fetch_failed]\<rparr>
        | None \<Rightarrow>
           (case rejects env q_herbs of
              Some e \<Rightarrow>
                \<lparr>ui = s\<lparr>loading_collector := False\<rparr>, calls = [q_collector, q_herbs],
                 toasts = [fetch_failed]\<rparr>
            | None \<Rightarrow>
               (case collectorData of
                  None \<Rightarrow>
                    \<lparr>ui = s\<lparr>collector := None, herbs := herbs_table env, collectionEvents := [],
                              loading_collector := False\<rparr>,
                     calls = [q_collector, q_herbs], toasts = []\<rparr>
                | Some c \<Rightarrow>
                   (let q_events = Select ''collection_events'' [(''collector_id'', Some (col_id c))]
                    in (case rejects env q_events of
                          Some e \<Rightarrow>
                            \<lparr>ui = s\<lparr>loading_collector := False\<rparr>,
                             calls = [q_collector, q_herbs, q_events], toasts = [fetch_failed]\<rparr>
                        | None \<Rightarrow>
                            \<lparr>ui = s\<lparr>collector := Some c, herbs := herbs_table env,
                                      collectionEvents :=
                                        filter (\<lambda>e. ce_collector_id e = col_id c)
                                          (collection_events_table env),
                                      loading_collector := False\<rparr>,
                             calls = [q_collector, q_herbs, q_events], toasts = []\<rparr>)))))"


text \<open>\<open>text ? JSON.parse(text) : null\<close>: the outer \<open>None\<close> is the throw.\<close>

definition parse_optional :: "('j, 'n) env \<Rightarrow> string \<Rightarrow> 'j option option" where
  "parse_optional env text =
     (if text = [] then Some None else map_option Some (json_parse env text))"

definition recordCollection ::
  "('j, 'n) env \<Rightarrow> 'n collector_state \<Rightarrow> ('n collector_state, ('j, 'n) store_call) outcome" where
  "recordCollection env s =
    (let invalid = Toast ''Error''
           ''Please fill all required fields and ensure location is available'' Destructive;
         failed = Toast ''Error'' ''Failed to record collection event'' Destructive
     in case (collector s, location s) of
          (Some c, Some l) \<Rightarrow>
            if herb_id (collectionForm s) = [] \<or> quantity_kg (collectionForm s) = [] then
              \<lparr>ui = s, calls = [], toasts = [invalid]\<rparr>
            else
              (case parse_optional env (environmental_data (collectionForm s)) of
                 None \<Rightarrow> \<lparr>ui = s, calls = [], toasts = [failed]\<rparr>
               | Some env_data \<Rightarrow>
                  (case parse_optional env (storage_conditions (collectionForm s)) of
                     None \<Rightarrow> \<lparr>ui = s, calls = [], toasts = [failed]\<rparr>
                   | Some storage \<Rightarrow>
                      (let ins = Insert_collection_event
                             \<lparr>ci_collector_id = col_id c,
                              ci_herb_id = herb_id (collectionForm s),
                              ci_quantity_kg = parseFloat env (quantity_kg (collectionForm s)),
                              ci_latitude = lat l, ci_longitude = lng l,
                              ci_plant_part = plant_part (collectionForm s),
                              ci_harvest_season = harvest_season (collectionForm s),
                              ci_initial_condition = initial_condition (collectionForm s),
                              ci_environmental_data = env_data,
                              ci_storage_conditions = storage\<rparr>
                       in (case rejects env ins of
                             Some e \<Rightarrow> \<lparr>ui = s, calls = [ins], toasts = [failed]\<rparr>
                           | None \<Rightarrow>
                               then_fetch [ins]
                                 [Toast ''Success'' ''Collection event recorded successfully''
                                    Default]
                                 (fetchData_collector env
                                    (s\<lparr>collectionForm := empty_collection_form,
                                       showCollectionForm := False\<rparr>))))))
        | _ \<Rightarrow> \<lparr>ui = s, calls = [], toasts = [invalid]\<rparr>)"

section \<open>Admin portal\<close>

record herb_form =
  botanical_name :: string
  local_name :: string
  plant_family :: string
  conservation_status :: string
  approved_regions :: string
  medicinal_properties :: string
  harvest_season_herb :: string

record rule_form =
  rule_herb_id :: string
  rule_type :: string
  rule_parameters :: string

record 'j admin_state =
  users :: "profile_row list"
  herbs_admin :: "herb list"
  complianceRules :: "'j compliance_rule list"
  activeTab :: string
  loading_admin :: bool
  showHerbForm :: bool
  showRuleForm :: bool
  herbForm :: herb_form
  ruleForm :: rule_form

definition empty_herb_form :: herb_form where
  "empty_herb_form =
     \<lparr>botanical_name = [], local_name = [], plant_family = [], conservation_status = [],
      approved_regions = [], medicinal_properties = [], harvest_season_herb = []\<rparr>"


definition fetchData_admin ::
  "('j, 'n) env \<Rightarrow> 'j admin_state \<Rightarrow> ('j admin_state, ('j, 'n) store_call) outcome" where
  "fetchData_admin env s =
    (let q_users = Select ''profiles'' [];
         q_herbs = Select ''herbs'' [];
         q_rules = Select ''compliance_rules'' [];
         failed = Toast ''Error'' ''Failed to fetch admin data'' Destructive
     in case rejects env q_users of
          Some e \<Rightarrow> \<lparr>ui = s\<lparr>loading_admin := False\<rparr>, calls = [q_users], toasts = [failed]\<rparr>
        | None \<Rightarrow>
           (case rejects env q_herbs of
              Some e \<Rightarrow>
                \<lparr>ui = s\<lparr>loading_admin := False\<rparr>, calls = [q_users, q_herbs],
                 toasts = [failed]\<rparr>
            | None \<Rightarrow>
               (case rejects env q_rules of
                  Some e \<Rightarrow>
                    \<lparr>ui = s\<lparr>loading_admin := False\<rparr>, calls = [q_users, q_herbs, q_rules],
                     toasts = [failed]\<rparr>
                | None \<Rightarrow>
                    \<lparr>ui = s\<lparr>users := profiles_table env, herbs_admin := herbs_table env,
                              complianceRules := compliance_rules_table env,
                              loading_admin := False\<rparr>,
                     calls = [q_users, q_herbs, q_rules], toasts = []\<rparr>)))"

text \<open>\<open>text.split(',')\<close>, \<open>a || null\<close> and \<open>text ? text.split(',').map(x => x.trim()) : null\<close>.\<close>

fun split_comma :: "string \<Rightarrow> string list" where
  "split_comma [] = [[]]"
| "split_comma (c # cs) =
     (if c = CHR '','' then [] # split_comma cs
      else (case split_comma cs of
              [] \<Rightarrow> [[c]]
            | w # ws \<Rightarrow> (c # w) # ws))"

definition or_null :: "string \<Rightarrow> string option" where
  "or_null a = (if a = [] then None else Some a)"

definition trimmed_items :: "string \<Rightarrow> string list option" where
  "trimmed_items text = (if text = [] then None else Some (map trim (split_comma text)))"

definition createHerb ::
  "('j, 'n) env \<Rightarrow> 'j admin_state \<Rightarrow> ('j admin_state, ('j, 'n) store_call) outcome" where
  "createHerb env s =
    (let ins = Insert_herb
           \<lparr>hi_botanical_name = botanical_name (herbForm s),
            hi_local_name = local_name (herbForm s),
            hi_plant_family = or_null (plant_family (herbForm s)),
            hi_conservation_status = or_null (conservation_status (herbForm s)),
            hi_approved_regions = trimmed_items (approved_regions (herbForm s)),
            hi_medicinal_properties = trimmed_items (medicinal_properties (herbForm s)),
            hi_harvest_season = trimmed_items (harvest_season_herb (herbForm s))\<rparr>
     in case rejects env ins of
          Some e \<Rightarrow>
            \<lparr>ui = s, calls = [ins], toasts = [Toast ''Error'' ''Failed to create herb'' Destructive]\<rparr>
        | None \<Rightarrow>
            then_fetch [ins] [Toast ''Success'' ''Herb added successfully'' Default]
              (fetchData_admin env (s\<lparr>herbForm := empty_herb_form, showHerbForm := False\<rparr>)))"


section \<open>Sign-in form\<close>






section \<open>Traceability aggregator\<close>

text \<open>
  The tables the aggregator reads, as a snapshot of the store, with the tables whose read
  the store rejects, and the trace the aggregator composes.
\<close>

record ('j, 'n) store =
  products :: "('j, 'n) product_row list"
  batches :: "'n batch list"
  collection_events :: "'n collection_event list"
  quality_tests :: "quality_test list"
  processing_steps :: "'n processing_step list"
  read_fails :: "string \<Rightarrow> bool"

record ('j, 'n) trace =
  t_product :: "('j, 'n) product_row"
  t_batches :: "'n batch list"
  t_collections :: "'n collection_event list"
  t_qualityTests :: "quality_test list"
  t_processingSteps :: "'n processing_step list"

datatype resolve_error = NotFound | FetchError

text \<open>
  Modelled from the spec: \<open>getQRCodeData\<close> and the token codec live in
  \<open>@/utils/blockchain\<close>, which is not among the sources; ConsumerPortal.tsx only calls it.
  \<open>resolve\<close> follows section 4.2 step by step. The codec is a parameter \<open>decode\<close>
  (\<open>None\<close> is its \<open>MalformedToken\<close> failure), since the spec fixes no token format. Each of
  steps 2 to 6 is one select on the snapshot: the product whose stored QR value is the
  token; the batches whose id is among the product's \<open>batch_ids\<close>; the collection events
  of the herbs of those batches; the quality tests and the processing steps whose
  \<open>batch_id\<close> is the id of a resolved batch. By the failure policy of 4.2 a rejected read
  aborts the resolution with the generic fetch error: the product read before the product
  is looked up, and the four reads of steps 3 to 6, which all have to complete, before
  the trace is composed.
\<close>

definition resolve ::
  "(string \<Rightarrow> qr_payload option) \<Rightarrow> ('j, 'n) store \<Rightarrow> string \<Rightarrow> resolve_error + ('j, 'n) trace" where
  "resolve decode st token =
    (case decode token of
       None \<Rightarrow> Inl NotFound
     | Some payload \<Rightarrow>
        if read_fails st ''products'' then Inl FetchError
        else
          (case find (\<lambda>p. p_qr_code p = token) (products st) of
             None \<Rightarrow> Inl NotFound
           | Some found \<Rightarrow>
              if read_fails st ''batches'' \<or> read_fails st ''collection_events''
                 \<or> read_fails st ''quality_tests'' \<or> read_fails st ''processing_steps''
              then Inl FetchError
              else
                (let bs = filter (\<lambda>b. b_id b \<in> set (p_batch_ids found)) (batches st);
                     resolved = set (map b_id bs)
                 in Inr \<lparr>t_product = found,
                         t_batches = bs,
                         t_collections =
                           filter (\<lambda>e. ce_herb_id e \<in> set (map b_herb_id bs))
                             (collection_events st),
                         t_qualityTests =
                           filter (\<lambda>t. qt_batch_id t \<in> resolved) (quality_tests st),
                         t_processingSteps =
                           filter (\<lambda>p. ps_batch_id p \<in> resolved) (processing_steps st)\<rparr>)))"

section \<open>Failed actions\<close>








text \<open>
  A failure is surfaced as a notification and nothing else when the outcome has exactly
  one toast, of the destructive variant.
\<close>

fun destructive :: "toast \<Rightarrow> bool" where
  "destructive (Toast t d v) = (v = Destructive)"

fun only_destructive :: "toast list \<Rightarrow> bool" where
  "only_destructive [t] = destructive t"
| "only_destructive ts = False"


section \<open>Scenarios\<close>

text \<open>
  Concrete environments and states on which the theorems below are exercised. Parsed JSON
  is represented by its text and numbers by naturals; \<open>quiet_env\<close> is a store with no
  rows that accepts every call, \<open>offline_env\<close> one that rejects every call.
\<close>

definition quiet_env :: "(string, nat) env" where
  "quiet_env =
     \<lparr>json_parse = Some, parseFloat = length, parseInt = length, date_now = 7,
      date_iso = ''2024-03-01T10:00:00.000Z'', generateQRCode = productId,
      profile = None, rejects = (\<lambda>c. None), generated_id = ''col-1'',
      batches_table = [], processing_steps_table = [], quality_tests_table = [],
      collectors_table = [], herbs_table = [], collection_events_table = [],
      profiles_table = [], compliance_rules_table = []\<rparr>"


definition sample_batch :: "string \<Rightarrow> string \<Rightarrow> nat batch" where
  "sample_batch i status =
     \<lparr>b_id = i, b_batch_id = ''BATCH-'' @ i, b_herb_id = ''herb-1'', b_total_quantity_kg = 5,
      b_batch_status = status\<rparr>"

definition sample_step :: "string \<Rightarrow> string \<Rightarrow> string option \<Rightarrow> nat processing_step" where
  "sample_step i b done =
     \<lparr>ps_id = i, ps_batch_id = b, ps_processor_id = ''factory-1'', ps_process_type = ''drying'',
      ps_input_quantity_kg = 5, ps_completion_date = done\<rparr>"

definition sample_test :: "string \<Rightarrow> string \<Rightarrow> string \<Rightarrow> quality_test" where
  "sample_test i b status =
     \<lparr>qt_id = i, qt_batch_id = b, qt_lab_id = ''lab-1'', qt_sample_id = ''S-'' @ i,
      qt_test_status = status,
      qt_completion_date = (if status = ''completed'' then Some ''2024-02-01T09:00:00.000Z'' else None),
      qt_test_results =
        (if status = ''completed'' then Some (empty_test_results\<lparr>overall_grade := ''A''\<rparr>)
         else None)\<rparr>"

definition sample_product :: "string \<Rightarrow> string list \<Rightarrow> (string, nat) product_row" where
  "sample_product token ids =
     \<lparr>p_manufacturer_id = Some ''factory-1'', p_product_name = ''Churna'',
      p_product_type = ''powder'', p_final_quantity = 10, p_unit_type = ''g'',
      p_formulation_details = ''{}'', p_batch_ids = ids, p_qr_code = token\<rparr>"

definition sample_store :: "string list \<Rightarrow> string list \<Rightarrow> (string, nat) store" where
  "sample_store product_batches stored_batches =
     \<lparr>products = [sample_product ''QR-1'' product_batches],
      batches = map (\<lambda>i. sample_batch i ''approved'') stored_batches,
      collection_events = [],
      quality_tests = [sample_test ''t1'' ''B1'' ''completed'', sample_test ''t2'' ''B9'' ''pending''],
      processing_steps = [], read_fails = (\<lambda>table. False)\<rparr>"

definition sample_payload :: "string \<Rightarrow> qr_payload option" where
  "sample_payload token =
     (if token = [] then None
      else Some \<lparr>payload_type = ''product'', productId = token, batchIds = []\<rparr>)"

definition busy_factory_state :: "nat factory_state" where
  "busy_factory_state =
     \<lparr>availableBatches = [sample_batch ''B1'' ''approved''],
      processingSteps =
        [sample_step ''s1'' ''B1'' (Some ''2024-02-10T08:00:00.000Z''), sample_step ''s2'' ''B1'' None],
      selectedBatch = Some (sample_batch ''B1'' ''approved''),
      processForm = empty_process_form\<lparr>process_type := ''grinding'', input_quantity_kg := ''5''\<rparr>,
      productForm = empty_product_form\<lparr>product_name := ''Churna'', final_quantity := ''10''\<rparr>,
      showProductForm = True, loading_factory = False\<rparr>"

definition busy_lab_state :: lab_state where
  "busy_lab_state =
     \<lparr>qualityTests = [sample_test ''t1'' ''B1'' ''completed''], selectedTest = None,
      testResults = empty_test_results, loading_lab = False\<rparr>"

definition busy_collector_state :: "nat collector_state" where
  "busy_collector_state =
     \<lparr>herbs = [], collectionEvents = [],
      collector = Some \<lparr>col_id = ''col-1'', col_profile_id = Some ''p1'',
                        col_collector_type = ''farmer'', col_verification_status = ''pending'',
                        col_aadhaar_id = None, col_cooperative_id = None\<rparr>,
      location = Some \<lparr>lat = 26, lng = 75\<rparr>,
      showCollectionForm = True,
      collectionForm = empty_collection_form\<lparr>herb_id := ''herb-1'', quantity_kg := ''2.5''\<rparr>,
      loading_collector = False\<rparr>"

definition busy_admin_state :: "string admin_state" where
  "busy_admin_state =
     \<lparr>users = [], herbs_admin = [], complianceRules = [], activeTab = ''herbs'',
      loading_admin = False, showHerbForm = True, showRuleForm = True,
      herbForm = empty_herb_form,
      ruleForm = \<lparr>rule_herb_id = ''herb-1'', rule_type = ''quantity_limit'',
                  rule_parameters = ''{}''\<rparr>\<rparr>"





section \<open>Properties\<close>

lemma trim_empty_iff: "trim s = [] \<longleftrightarrow> (\<forall>c \<in> set s. is_white_space c)"
proof
  assume "trim s = []"
  then have "\<forall>c \<in> set (dropWhile is_white_space s). is_white_space c"
    by (simp add: trim_def)
  moreover have "dropWhile is_white_space s = [] \<or> \<not> is_white_space (hd (dropWhile is_white_space s))"
    using hd_dropWhile by blast
  ultimately have "dropWhile is_white_space s = []"
    by (cases "dropWhile is_white_space s") auto
  then show "\<forall>c \<in> set s. is_white_space c"
    by simp
next
  assume "\<forall>c \<in> set s. is_white_space c"
  then show "trim s = []"
    by (auto simp: trim_def dest: set_dropWhileD)
qed

text \<open>
  C10. When the entered text is empty or only white space, the scan action issues no call
  to the aggregator, leaves the whole state of the portal (trace data, error, loading and
  the text itself) as it was, and raises exactly one notification.
\<close>

theorem scan_blank_input_is_noop:
  assumes "\<forall>c \<in> set (qrCode s). is_white_space c"
  shows "ui (scanQRCode getQRCodeData s) = s
       \<and> calls (scanQRCode getQRCodeData s) = []
       \<and> toasts (scanQRCode getQRCodeData s)
           = [Toast ''Missing QR Code'' ''Please enter a QR code to scan.'' Destructive]"
proof -
  have "trim (qrCode s) = []"
    using assms by (simp add: trim_empty_iff)
  then show ?thesis
    by (simp add: scanQRCode_def)
qed

theorem scan_blank_input_is_noop_witness:
  "list_all is_white_space ''  ''
   \<and> ui (scanQRCode (\<lambda>t. Rejects ''offline'')
         \<lparr>qrCode = ''  '', traceData = (None :: (unit, unit) traceability_data option),
          loading = False, error = ''stale''\<rparr>)
       = \<lparr>qrCode = ''  '', traceData = None, loading = False, error = ''stale''\<rparr>
   \<and> calls (scanQRCode (\<lambda>t. Rejects ''offline'')
         \<lparr>qrCode = ''  '', traceData = (None :: (unit, unit) traceability_data option),
          loading = False, error = ''stale''\<rparr>) = []"
  using scan_blank_input_is_noop
    [of "\<lparr>qrCode = ''  '', traceData = (None :: (unit, unit) traceability_data option),
          loading = False, error = ''stale''\<rparr>" "\<lambda>t. Rejects ''offline''"]
  by (simp add: is_white_space_def)

subsection \<open>Collector portal: the quantity is checked before the insert\<close>

text \<open>
  C7. A Collection record submitted with an empty \<open>quantity_kg\<close> is rejected locally:
  \<open>recordCollection\<close> issues no call on the store, leaves the portal's state as it was
  and raises the validation notification.
\<close>

theorem record_collection_empty_quantity_rejected:
  assumes "quantity_kg (collectionForm s) = []"
  shows "ui (recordCollection env s) = s
       \<and> calls (recordCollection env s) = []
       \<and> toasts (recordCollection env s)
           = [Toast ''Error''
                ''Please fill all required fields and ensure location is available''
                Destructive]"
  using assms unfolding recordCollection_def Let_def
  by (simp split: option.splits)

text \<open>
  The same form with and without a quantity: without it nothing reaches the store, with
  it the insert is issued.
\<close>

theorem record_collection_empty_quantity_rejected_witness:
  "quantity_kg (collectionForm (busy_collector_state\<lparr>collectionForm :=
       empty_collection_form\<lparr>herb_id := ''herb-1''\<rparr>\<rparr>)) = []
   \<and> calls (recordCollection quiet_env (busy_collector_state\<lparr>collectionForm :=
       empty_collection_form\<lparr>herb_id := ''herb-1''\<rparr>\<rparr>)) = []
   \<and> calls (recordCollection quiet_env busy_collector_state) \<noteq> []"
  using record_collection_empty_quantity_rejected
    [of "busy_collector_state\<lparr>collectionForm :=
           empty_collection_form\<lparr>herb_id := ''herb-1''\<rparr>\<rparr>" quiet_env]
  by (simp add: empty_collection_form_def busy_collector_state_def recordCollection_def
        quiet_env_def parse_optional_def then_fetch_def)

subsection \<open>Factory portal: the list of available batches\<close>

lemma fetch_keeps_approved:
  assumes "\<forall>b \<in> set (availableBatches s). b_batch_status b = ''approved''"
  shows "\<forall>b \<in> set (availableBatches (ui (fetchData_factory env s))).
           b_batch_status b = ''approved''"
  using assms unfolding fetchData_factory_def Let_def
  by (simp split: option.splits)

lemma create_step_keeps_approved:
  assumes "\<forall>b \<in> set (availableBatches s). b_batch_status b = ''approved''"
  shows "\<forall>b \<in> set (availableBatches (ui (createProcessingStep env s))).
           b_batch_status b = ''approved''"
proof -
  have refetched:
    "\<forall>b \<in> set (availableBatches (ui (fetchData_factory env
         (s\<lparr>processForm := empty_process_form, selectedBatch := None\<rparr>)))).
       b_batch_status b = ''approved''"
    by (rule fetch_keeps_approved) (simp add: assms)
  show ?thesis
    unfolding createProcessingStep_def Let_def then_fetch_def
    using assms refetched by (simp split: option.splits)
qed

lemma create_product_keeps_batches:
  "availableBatches (ui (createProduct env s)) = availableBatches s"
  unfolding createProduct_def Let_def
  by (simp split: option.splits)

lemma step_keeps_approved:
  assumes "\<forall>b \<in> set (availableBatches s). b_batch_status b = ''approved''"
  shows "\<forall>b \<in> set (availableBatches (factory_step env ev s)). b_batch_status b = ''approved''"
proof (cases ev)
  case FetchData
  then show ?thesis using fetch_keeps_approved [OF assms] by simp
next
  case CreateProcessingStep
  then show ?thesis using create_step_keeps_approved [OF assms] by simp
next
  case CreateProduct
  then show ?thesis using assms by (simp add: create_product_keeps_batches)
qed (use assms in simp_all)

lemma run_keeps_approved:
  assumes "\<forall>b \<in> set (availableBatches s). b_batch_status b = ''approved''"
  shows "\<forall>b \<in> set (availableBatches (factory_run evs s)). b_batch_status b = ''approved''"
  using assms
proof (induction evs arbitrary: s)
  case Nil
  then show ?case by simp
next
  case (Cons e evs)
  obtain env ev where e: "e = (env, ev)" by (cases e)
  show ?case
    unfolding e factory_run.simps
    by (rule Cons.IH) (rule step_keeps_approved, rule Cons.prems)
qed

text \<open>
  C9. Whatever the Factory portal has gone through since it mounted, every batch in its
  list of available batches has the status \<open>approved\<close>: the list is only ever written by
  \<open>fetchData\<close>, from a select filtered on that status.
\<close>

theorem available_batches_are_approved:
  "\<forall>b \<in> set (availableBatches (factory_run evs initial_factory_state)).
     b_batch_status b = ''approved''"
  by (rule run_keeps_approved) (simp add: initial_factory_state_def)

text \<open>A store with an approved and a pending batch: only the approved one is listed.\<close>

theorem available_batches_are_approved_witness:
  "availableBatches
     (factory_run
        [(quiet_env\<lparr>batches_table :=
            [sample_batch ''B1'' ''approved'', sample_batch ''B2'' ''pending'']\<rparr>, FetchData)]
        initial_factory_state)
     = [sample_batch ''B1'' ''approved'']
   \<and> list_all (\<lambda>b. b_batch_status b = ''approved'')
       (availableBatches
          (factory_run
             [(quiet_env\<lparr>batches_table :=
                 [sample_batch ''B1'' ''approved'', sample_batch ''B2'' ''pending'']\<rparr>, FetchData)]
             initial_factory_state))"
  using available_batches_are_approved
    [of "[(quiet_env\<lparr>batches_table :=
             [sample_batch ''B1'' ''approved'', sample_batch ''B2'' ''pending'']\<rparr>, FetchData)]"]
  by (simp add: fetchData_factory_def quiet_env_def sample_batch_def initial_factory_state_def
        list_all_iff)

subsection \<open>Factory portal: the batches a product refers to\<close>

lemma completed_batch_ids_sound:
  "b \<in> set (completed_batch_ids steps) \<Longrightarrow>
     \<exists>step \<in> set steps. ps_batch_id step = b \<and> truthy (ps_completion_date step)"
  by (auto simp: completed_batch_ids_def)

lemma createProduct_calls:
  "Insert_product row \<in> set (calls (createProduct env s)) \<Longrightarrow>
     p_batch_ids row = completed_batch_ids (processingSteps s)"
  unfolding createProduct_def Let_def
  by (simp split: if_splits option.splits)

lemma busy_createProduct:
  "calls (createProduct quiet_env busy_factory_state)
     = [Insert_product
          \<lparr>p_manufacturer_id = None, p_product_name = ''Churna'', p_product_type = [],
           p_final_quantity = 2, p_unit_type = [], p_formulation_details = ''{}'',
           p_batch_ids = [''B1''], p_qr_code = ''PROD_7''\<rparr>]"
  by (simp add: createProduct_def quiet_env_def busy_factory_state_def empty_product_form_def
        completed_batch_ids_def sample_step_def or_else_def profile_id_def decimal.simps)

text \<open>
  C4, as the code has it. Every batch id of a Product row that \<open>createProduct\<close> inserts is
  the \<open>batch_id\<close> of a processing step loaded in the portal whose \<open>completion_date\<close> is
  set. Nothing is said about the other steps of that batch.
\<close>

theorem product_batch_ids_from_completed_steps:
  assumes "Insert_product row \<in> set (calls (createProduct env s))"
  shows "\<forall>b \<in> set (p_batch_ids row).
           \<exists>step \<in> set (processingSteps s).
             ps_batch_id step = b \<and> truthy (ps_completion_date step)"
proof
  fix b
  assume "b \<in> set (p_batch_ids row)"
  then have "b \<in> set (completed_batch_ids (processingSteps s))"
    using createProduct_calls [OF assms] by simp
  then show "\<exists>step \<in> set (processingSteps s).
               ps_batch_id step = b \<and> truthy (ps_completion_date step)"
    by (rule completed_batch_ids_sound)
qed

theorem product_batch_ids_from_completed_steps_witness:
  "Insert_product
     \<lparr>p_manufacturer_id = None, p_product_name = ''Churna'', p_product_type = [],
      p_final_quantity = 2, p_unit_type = [], p_formulation_details = ''{}'',
      p_batch_ids = [''B1''], p_qr_code = ''PROD_7''\<rparr>
     \<in> set (calls (createProduct quiet_env busy_factory_state))
   \<and> list_ex (\<lambda>step. ps_batch_id step = ''B1'' \<and> truthy (ps_completion_date step))
       (processingSteps busy_factory_state)"
  using product_batch_ids_from_completed_steps
    [of "\<lparr>p_manufacturer_id = None, p_product_name = ''Churna'', p_product_type = [],
          p_final_quantity = 2, p_unit_type = [], p_formulation_details = ''{}'',
          p_batch_ids = [''B1''], p_qr_code = ''PROD_7''\<rparr>" quiet_env busy_factory_state]
    busy_createProduct
  by (simp add: list_ex_iff)

text \<open>
  C4, as the claim states it, fails: batch B1 has a completed step and a step still in
  progress, and the inserted Product refers to B1.
\<close>

theorem product_batch_ids_counterexample:
  "calls (createProduct quiet_env busy_factory_state)
     = [Insert_product
          \<lparr>p_manufacturer_id = None, p_product_name = ''Churna'', p_product_type = [],
           p_final_quantity = 2, p_unit_type = [], p_formulation_details = ''{}'',
           p_batch_ids = [''B1''], p_qr_code = ''PROD_7''\<rparr>]
   \<and> list_ex (\<lambda>step. ps_batch_id step = ''B1'' \<and> ps_completion_date step = None)
       (processingSteps busy_factory_state)"
  by (simp add: createProduct_def quiet_env_def busy_factory_state_def empty_product_form_def
        completed_batch_ids_def sample_step_def or_else_def profile_id_def decimal.simps)

subsection \<open>What a failed action leaves behind\<close>

lemma success_first_not_failure [simp]:
  "\<not> only_destructive (Toast t d Default # ts)"
  by (cases ts) simp_all
























subsection \<open>Required fields that are not checked\<close>

text \<open>
  C6 does not hold for the Admin portal. The herb form marks the botanical and the local
  name as required, and \<open>createHerb\<close> sends the insert with both empty: here is the call
  it issues for the empty form.
\<close>

theorem createHerb_empty_form_reaches_store:
  "botanical_name (herbForm (busy_admin_state\<lparr>herbForm := empty_herb_form\<rparr>)) = []
   \<and> calls (createHerb quiet_env (busy_admin_state\<lparr>herbForm := empty_herb_form\<rparr>))
       = [Insert_herb
            \<lparr>hi_botanical_name = [], hi_local_name = [], hi_plant_family = None,
             hi_conservation_status = None, hi_approved_regions = None,
             hi_medicinal_properties = None, hi_harvest_season = None\<rparr>,
          Select ''profiles'' [], Select ''herbs'' [], Select ''compliance_rules'' []]
   \<and> toasts (createHerb quiet_env (busy_admin_state\<lparr>herbForm := empty_herb_form\<rparr>))
       = [Toast ''Success'' ''Herb added successfully'' Default]"
  by (simp add: createHerb_def fetchData_admin_def then_fetch_def quiet_env_def
        empty_herb_form_def or_null_def trimmed_items_def)

subsection \<open>Lab portal: saving over a completed test\<close>

text \<open>
  C8 does not hold. A test that is already completed, with grade A on record, is selected
  from the queue and saved with the blank form: \<open>updateTestResults\<close> issues the update for
  it, and the store then holds the blank results in place of the recorded ones.
\<close>

theorem completed_test_results_overwritten:
  "qt_test_status (sample_test ''t1'' ''B1'' ''completed'') = ''completed''
   \<and> qt_test_results (sample_test ''t1'' ''B1'' ''completed'')
       = Some (empty_test_results\<lparr>overall_grade := ''A''\<rparr>)
   \<and> calls (updateTestResults quiet_env
              (selectTest (sample_test ''t1'' ''B1'' ''completed'') busy_lab_state))
       = [Update_quality_test ''t1''
            \<lparr>tu_test_results = empty_test_results, tu_test_status = ''completed'',
             tu_completion_date = ''2024-03-01T10:00:00.000Z''\<rparr>,
          Select ''quality_tests'' [(''lab_id'', None)]]
   \<and> toasts (updateTestResults quiet_env
               (selectTest (sample_test ''t1'' ''B1'' ''completed'') busy_lab_state))
       = [Toast ''Success'' ''Test results updated successfully'' Default]
   \<and> map qt_test_results
         (apply_test_update ''t1''
            \<lparr>tu_test_results = empty_test_results, tu_test_status = ''completed'',
             tu_completion_date = ''2024-03-01T10:00:00.000Z''\<rparr>
            [sample_test ''t1'' ''B1'' ''completed''])
       = [Some empty_test_results]"
  by (simp add: updateTestResults_def fetchQualityTests_def then_fetch_def selectTest_def
        busy_lab_state_def quiet_env_def profile_id_def sample_test_def apply_test_update_def)

subsection \<open>Traceability aggregator\<close>

text \<open>
  C2, as the aggregator of section 4.2 has it. \<open>resolve\<close> answers \<open>NotFound\<close> exactly for
  a token the codec cannot decode, whatever the store does, and for a token that no
  Product stores as its QR value when the read of the products goes through; both give
  the same value, so the caller cannot tell them apart. A decodable token whose product
  read is rejected gives the generic fetch error instead, registered or not.
\<close>

theorem resolve_not_found:
  "(resolve decode st token = Inl NotFound)
     = (decode token = None
        \<or> (\<not> read_fails st ''products'' \<and> (\<forall>p \<in> set (products st). p_qr_code p \<noteq> token)))
   \<and> (decode token \<noteq> None \<and> read_fails st ''products''
        \<longrightarrow> resolve decode st token = Inl FetchError)"
proof (cases "decode token")
  case None
  then show ?thesis by (simp add: resolve_def)
next
  case (Some payload)
  show ?thesis
  proof (cases "find (\<lambda>p. p_qr_code p = token) (products st)")
    case None
    then have "\<forall>p \<in> set (products st). p_qr_code p \<noteq> token"
      by (simp add: find_None_iff)
    with Some None show ?thesis by (simp add: resolve_def)
  next
    case (Some found)
    then have "\<not> (\<forall>p \<in> set (products st). p_qr_code p \<noteq> token)"
      by (auto simp: find_Some_iff)
    with \<open>decode token = Some payload\<close> Some show ?thesis
      by (simp add: resolve_def Let_def)
  qed
qed

text \<open>
  An undecodable token, against a store that answers and against one that rejects every
  read, and a decodable token that is not registered.
\<close>

theorem resolve_not_found_witness:
  "sample_payload [] = None
   \<and> resolve sample_payload (sample_store [''B1''] [''B1'']) [] = Inl NotFound
   \<and> resolve sample_payload ((sample_store [''B1''] [''B1''])\<lparr>read_fails := (\<lambda>table. True)\<rparr>) []
       = Inl NotFound
   \<and> sample_payload ''QR-404'' \<noteq> None
   \<and> list_all (\<lambda>p. p_qr_code p \<noteq> ''QR-404'') (products (sample_store [''B1''] [''B1'']))
   \<and> resolve sample_payload (sample_store [''B1''] [''B1'']) ''QR-404'' = Inl NotFound
   \<and> resolve sample_payload (sample_store [''B1''] [''B1'']) ''QR-1'' \<noteq> Inl NotFound"
  using resolve_not_found [of sample_payload "sample_store [''B1''] [''B1'']" "[]"]
        resolve_not_found
          [of sample_payload "(sample_store [''B1''] [''B1''])\<lparr>read_fails := (\<lambda>table. True)\<rparr>" "[]"]
        resolve_not_found [of sample_payload "sample_store [''B1''] [''B1'']" "''QR-404''"]
        resolve_not_found [of sample_payload "sample_store [''B1''] [''B1'']" "''QR-1''"]
  by (simp add: sample_payload_def sample_store_def sample_product_def)

text \<open>
  C2, as the claim states it, fails: the token is well formed and no Product stores it,
  the store rejects the read of the products, and the answer is the fetch error.
\<close>

theorem resolve_not_found_counterexample:
  "sample_payload ''QR-404'' \<noteq> None
   \<and> list_all (\<lambda>p. p_qr_code p \<noteq> ''QR-404'')
       (products ((sample_store [''B1''] [''B1''])\<lparr>read_fails := (\<lambda>table. table = ''products'')\<rparr>))
   \<and> resolve sample_payload
        ((sample_store [''B1''] [''B1''])\<lparr>read_fails := (\<lambda>table. table = ''products'')\<rparr>)
        ''QR-404''
       = Inl FetchError"
  by (simp add: resolve_def sample_payload_def sample_store_def sample_product_def)







end
